theory Spec2Isabelle
  imports Complex_Main
begin

section \<open>Python values and exceptions\<close>

text \<open>
  The values a caller can put into the \<open>opts\<close> dictionary of \<open>fit\<close>. Python's \<open>bool\<close> is
  a subclass of \<open>int\<close>, so \<open>isinstance(True, int)\<close> holds; the other constructors are the
  builtin types the check in \<open>init\<close> tells apart.
\<close>

datatype pyval =
    PyNone
  | PyBool bool
  | PyInt int
  | PyFloat real
  | PyStr string
  | PyList "pyval list"
  | PyTuple "pyval list"

text \<open>The exceptions the modelled code raises; \<open>Raised\<close> is any exception of a collaborator.\<close>

datatype exn =
    AssertionError
  | TypeError
  | IndexError
  | ValueError
  | OSError
  | Exception
  | Raised string

section \<open>Hyperparameters: \<open>init\<close> (app.py)\<close>

text \<open>
  \<open>config.DEFAULT\<close> is a module-level dictionary: one object for the whole process. Its
  contents are the state that \<open>init\<close> reads and writes, so \<open>init\<close> takes the contents and
  returns them updated, next to its result. The module \<open>config\<close> itself is not among the
  sources; the dictionary's contents are a parameter.

  \<open>opts\<close> is a dictionary too; it is only iterated, in insertion order, so it is a list of
  items (with pairwise different keys, as in every Python dictionary).
\<close>

type_synonym config = "string \<rightharpoonup> pyval"

type_synonym opts = "(string \<times> pyval) list"

text \<open>\<open>isinstance(v, (int, float, list))\<close>\<close>

fun isinstance_int_float_list :: "pyval \<Rightarrow> bool" where
  "isinstance_int_float_list (PyBool b) = True"
| "isinstance_int_float_list (PyInt i) = True"
| "isinstance_int_float_list (PyFloat f) = True"
| "isinstance_int_float_list (PyList vs) = True"
| "isinstance_int_float_list PyNone = False"
| "isinstance_int_float_list (PyStr s) = False"
| "isinstance_int_float_list (PyTuple vs) = False"

text \<open>
  The loop \<open>for item in opts.items()\<close>. \<open>cfg\<close> is the object \<open>config.DEFAULT\<close> (the
  assignment \<open>cfg = config.DEFAULT\<close> copies the reference, not the dictionary), so
  \<open>cfg[item[0]] = val\<close> writes into \<open>config.DEFAULT\<close>; what was written before a
  \<open>TypeError\<close> stays written.
\<close>

fun init_items :: "config \<Rightarrow> opts \<Rightarrow> exn option \<times> config" where
  "init_items cfg [] = (None, cfg)"
| "init_items cfg (item # items) =
     (if isinstance_int_float_list (snd item)
      then init_items (cfg(fst item \<mapsto> snd item)) items
      else (Some TypeError, cfg))"

text \<open>
  \<open>init opts DEFAULT\<close> is the pair of what \<open>init(opts)\<close> returns or raises and the contents
  of \<open>config.DEFAULT\<close> after the call. The returned dictionary is \<open>config.DEFAULT\<close> itself.
\<close>

definition init :: "opts option \<Rightarrow> config \<Rightarrow> (exn + config) \<times> config" where
  "init opts DEFAULT =
     (case opts of
        None \<Rightarrow> (Inr DEFAULT, DEFAULT)
      | Some items \<Rightarrow>
          if \<not> list_all (\<lambda>k. k \<in> dom DEFAULT) (map fst items)
          then (Inl AssertionError, DEFAULT)
          else (case init_items DEFAULT items of
                  (Some e, cfg) \<Rightarrow> (Inl e, cfg)
                | (None, cfg) \<Rightarrow> (Inr cfg, cfg)))"

text \<open>Two successive calls, as two runs of \<open>fit\<close> in one process make them.\<close>

definition init_twice :: "opts option \<Rightarrow> opts option \<Rightarrow> config \<Rightarrow> (exn + config) \<times> (exn + config)" where
  "init_twice opts1 opts2 DEFAULT =
     (let (r1, D1) = init opts1 DEFAULT;
          (r2, D2) = init opts2 D1
      in (r1, r2))"

section \<open>Label images (spot_labels.py)\<close>

subsection \<open>Dense and sparse arrays\<close>

text \<open>
  A two-dimensional numpy array: its shape (rows, columns) and its elements in row-major
  order, which is what \<open>flatten()\<close> returns and \<open>reshape\<close> reads. Element \<open>(r, c)\<close> is
  element \<open>r * columns + c\<close> of \<open>flat\<close>.
\<close>

record ndarray =
  nshape :: "nat \<times> nat"
  flat :: "int list"

definition pixel :: "ndarray \<Rightarrow> nat \<Rightarrow> nat \<Rightarrow> int" where
  "pixel a r c = flat a ! (r * snd (nshape a) + c)"

text \<open>
  The label image says which cell a pixel belongs to; label zero is the background. So
  the cell that contains pixel \<open>(r, c)\<close>, if any, is its nonzero label.
\<close>

definition cell_at :: "ndarray \<Rightarrow> nat \<Rightarrow> nat \<Rightarrow> int option" where
  "cell_at a r c = (if pixel a r c = 0 then None else Some (pixel a r c))"

text \<open>
  A scipy \<open>coo_matrix\<close>: the shape and three parallel arrays, entry \<open>k\<close> saying that
  \<open>data[k]\<close> is stored at \<open>(row[k], col[k])\<close>. Positions that are not stored are zero;
  entries stored at the same position add up when the matrix is converted.
\<close>

record coo_matrix =
  shape :: "nat \<times> nat"
  row :: "nat list"
  col :: "nat list"
  data :: "int list"

definition coo_at :: "coo_matrix \<Rightarrow> nat \<Rightarrow> nat \<Rightarrow> int" where
  "coo_at m r c =
     sum_list (map (\<lambda>(i, j, v). v)
       (filter (\<lambda>(i, j, v). i = r \<and> j = c) (zip (row m) (zip (col m) (data m)))))"

text \<open>\<open>coo.toarray()\<close>\<close>

definition toarray :: "coo_matrix \<Rightarrow> ndarray" where
  "toarray m =
     \<lparr>nshape = shape m,
      flat = map (\<lambda>k. coo_at m (k div snd (shape m)) (k mod snd (shape m)))
               [0..<fst (shape m) * snd (shape m)]\<rparr>"

text \<open>\<open>coo_matrix(a)\<close> for a dense array \<open>a\<close>: the nonzero elements, in row-major order.\<close>

definition coo_of_ndarray :: "ndarray \<Rightarrow> coo_matrix" where
  "coo_of_ndarray a =
     (let w = snd (nshape a);
          nz = filter (\<lambda>k. flat a ! k \<noteq> 0) [0..<fst (nshape a) * w]
      in \<lparr>shape = nshape a,
          row = map (\<lambda>k. k div w) nz,
          col = map (\<lambda>k. k mod w) nz,
          data = map (\<lambda>k. flat a ! k) nz\<rparr>)"

text \<open>
  A \<open>csr_matrix\<close> stores the same entries by rows. The code only reads single elements of
  it, so it is modelled by the array of its elements; the conversions \<open>tocsr()\<close> and
  \<open>csr_matrix(a)\<close> keep every element (duplicates of a \<open>coo_matrix\<close> add up, as in
  \<open>toarray\<close>).
\<close>

datatype csr_matrix = Csr ndarray

definition tocsr :: "coo_matrix \<Rightarrow> csr_matrix" where
  "tocsr m = Csr (toarray m)"

text \<open>
  Reading element \<open>[r, c]\<close> of a sparse matrix: an index from \<open>-n\<close> to \<open>-1\<close> counts from the
  end, and an index outside \<open>-n .. n - 1\<close> raises \<open>IndexError\<close>.
\<close>

definition csr_getitem :: "csr_matrix \<Rightarrow> int \<Rightarrow> int \<Rightarrow> exn + int" where
  "csr_getitem m r c =
     (case m of Csr a \<Rightarrow>
        (let h = int (fst (nshape a)); w = int (snd (nshape a));
             r' = (if r < 0 then r + h else r);
             c' = (if c < 0 then c + w else c)
         in if 0 \<le> r' \<and> r' < h \<and> 0 \<le> c' \<and> c' < w
            then Inr (pixel a (nat r') (nat c'))
            else Inl IndexError))"

subsection \<open>Spots\<close>

text \<open>A row of the \<open>spots\<close> data frame: the columns \<open>Gene\<close>, \<open>x\<close> and \<open>y\<close>.\<close>

record spot =
  Gene :: string
  spot_x :: int
  spot_y :: int

text \<open>The argument \<open>label_image\<close> of \<open>inside_cell\<close>, by its Python type.\<close>

datatype label_image =
    Coo_matrix coo_matrix
  | Ndarray ndarray
  | Csr_matrix csr_matrix
  | Other_type

text \<open>
  \<open>label_image[spots.y, spots.x]\<close>: the element at row \<open>y\<close> and column \<open>x\<close> for every spot, or
  \<open>IndexError\<close> when one of them is outside the matrix.
\<close>

fun getitem_spots :: "csr_matrix \<Rightarrow> spot list \<Rightarrow> exn + int list" where
  "getitem_spots m [] = Inr []"
| "getitem_spots m (s # ss) =
     (case csr_getitem m (spot_y s) (spot_x s) of
        Inl e \<Rightarrow> Inl e
      | Inr v \<Rightarrow> (case getitem_spots m ss of Inl e \<Rightarrow> Inl e | Inr vs \<Rightarrow> Inr (v # vs)))"

text \<open>
  \<open>inside_cell\<close>. The last two statements are \<open>out = np.asarray(m)\<close> and \<open>return out[0]\<close>. For
  one spot or more, \<open>m\<close> is a dense matrix of one row, the selected elements, and \<open>out[0]\<close> is
  that row. For no spot at all, scipy returns an empty sparse matrix: \<open>np.asarray\<close> wraps it
  in an array of no dimension, and \<open>out[0]\<close> raises \<open>IndexError\<close>.
\<close>

definition inside_cell :: "label_image \<Rightarrow> spot list \<Rightarrow> exn + int list" where
  "inside_cell label_image spots =
     (case (case label_image of
              Coo_matrix m \<Rightarrow> Inr (tocsr m)
            | Ndarray a \<Rightarrow> Inr (Csr a)
            | Csr_matrix m \<Rightarrow> Inr m
            | Other_type \<Rightarrow> Inl Exception) of
        Inl e \<Rightarrow> Inl e
      | Inr csr \<Rightarrow>
          (case getitem_spots csr spots of
             Inl e \<Rightarrow> Inl e
           | Inr m \<Rightarrow> if m = [] then Inl IndexError else Inr m))"

subsection \<open>Relabelling\<close>

text \<open>
  \<open>np.unique(xs, return_inverse=True)\<close>: the sorted distinct values of \<open>xs\<close>, and for every
  element of \<open>xs\<close> its position among them.
\<close>

fun index_of :: "int list \<Rightarrow> int \<Rightarrow> nat" where
  "index_of [] v = 0"
| "index_of (u # us) v = (if v = u then 0 else Suc (index_of us v))"

definition np_unique :: "int list \<Rightarrow> int list" where
  "np_unique xs = sort (remdups xs)"

definition np_unique_inverse :: "int list \<Rightarrow> nat list" where
  "np_unique_inverse xs = map (index_of (np_unique xs)) xs"

definition reorder_labels :: "coo_matrix \<Rightarrow> coo_matrix" where
  "reorder_labels coo =
     (let label_image = toarray coo;
          idx = np_unique_inverse (flat label_image)
      in coo_of_ndarray \<lparr>nshape = nshape label_image, flat = map int idx\<rparr>)"

text \<open>\<open>coo.data.max()\<close>; numpy raises \<open>ValueError\<close> on an empty array.\<close>

definition np_max :: "int list \<Rightarrow> exn + int" where
  "np_max xs = (case xs of [] \<Rightarrow> Inl ValueError | v # vs \<Rightarrow> Inr (fold max vs v))"

text \<open>
  The first statement of \<open>stage_data\<close>: the image is relabelled when the largest stored
  label differs from the number of distinct stored labels.
\<close>

definition stage_relabel :: "coo_matrix \<Rightarrow> exn + coo_matrix" where
  "stage_relabel coo =
     (case np_max (data coo) of
        Inl e \<Rightarrow> Inl e
      | Inr m \<Rightarrow>
          if m \<noteq> int (length (remdups (data coo))) then Inr (reorder_labels coo)
          else Inr coo)"

subsection \<open>\<open>stage_data\<close>\<close>

text \<open>
  The spots that pass \<open>mask_x & mask_y\<close>: \<open>0 \<le> x \<le> coo.shape[1]\<close> and
  \<open>0 \<le> y \<le> coo.shape[0]\<close>.
\<close>

definition in_mask :: "coo_matrix \<Rightarrow> spot \<Rightarrow> bool" where
  "in_mask coo s =
     ((spot_x s \<ge> 0 \<and> spot_x s \<le> int (snd (shape coo)))
      \<and> (spot_y s \<ge> 0 \<and> spot_y s \<le> int (fst (shape coo))))"

text \<open>\<open>spots.assign(label=inc)\<close>: the spots with the new column \<open>label\<close>.\<close>

record labelled_spot = spot +
  label :: int

definition assign_label :: "spot list \<Rightarrow> int list \<Rightarrow> labelled_spot list" where
  "assign_label spots inc =
     map (\<lambda>(s, l). \<lparr>Gene = Gene s, spot_x = spot_x s, spot_y = spot_y s, label = l\<rparr>)
       (zip spots inc)"

text \<open>
  The statements of \<open>stage_data\<close> up to \<open>spots.assign(label=inc)\<close>: the image the rest of
  the function works on, and the retained spots with their labels.
\<close>

definition stage_spots :: "spot list \<Rightarrow> coo_matrix \<Rightarrow> exn + coo_matrix \<times> labelled_spot list" where
  "stage_spots spots coo =
     (case stage_relabel coo of
        Inl e \<Rightarrow> Inl e
      | Inr coo' \<Rightarrow>
          (let spots' = filter (in_mask coo') spots
           in case inside_cell (Csr_matrix (tocsr coo')) spots' of
                Inl e \<Rightarrow> Inl e
              | Inr inc \<Rightarrow> Inr (coo', assign_label spots' inc)))"

text \<open>
  \<open>astype(np.int32)\<close> and \<open>astype(np.uint32)\<close> wrap every element into the range of the
  type.
\<close>

definition astype_int32 :: "ndarray \<Rightarrow> ndarray" where
  "astype_int32 a = a\<lparr>flat := map (\<lambda>v. (v + 2 ^ 31) mod 2 ^ 32 - 2 ^ 31) (flat a)\<rparr>"

definition astype_uint32 :: "ndarray \<Rightarrow> ndarray" where
  "astype_uint32 a = a\<lparr>flat := map (\<lambda>v. v mod 2 ^ 32) (flat a)\<rparr>"

text \<open>
  The rows of \<open>props_df\<close> (columns \<open>label\<close>, \<open>area\<close>, \<open>x_cell\<close>, \<open>y_cell\<close>) come from
  \<open>skimage.measure.regionprops\<close>, the rows of \<open>cell_boundaries\<close> (columns \<open>label\<close>,
  \<open>coords\<close>) from \<open>extract_borders_dip\<close>. Neither function is among the sources: both are
  parameters, from the array they are given to the rows they return or the exception they
  raise. The numbers they compute are of a type \<open>'f\<close>, the polygons of a type \<open>'p\<close>.
\<close>

record 'f prop_row =
  p_label :: int
  area :: 'f
  x_cell :: 'f
  y_cell :: 'f

type_synonym 'p boundary_row = "int \<times> 'p"

text \<open>A row of \<open>cells = props_df.merge(cell_boundaries)\<close>.\<close>

type_synonym ('f, 'p) cell_row = "'f prop_row \<times> 'p"

text \<open>
  \<open>props_df.merge(cell_boundaries)\<close>: the inner join on the common column \<open>label\<close>, in the
  order of the left table.
\<close>

definition merge_inner :: "'f prop_row list \<Rightarrow> 'p boundary_row list \<Rightarrow> ('f, 'p) cell_row list" where
  "merge_inner props bnds =
     concat (map (\<lambda>p. map (\<lambda>b. (p, snd b)) (filter (\<lambda>b. fst b = p_label p) bnds)) props)"

text \<open>
  A row of the returned \<open>_spots\<close>: the columns \<open>x_global\<close>, \<open>y_global\<close>, \<open>label\<close>, \<open>target\<close>,
  \<open>x_cell\<close>, \<open>y_cell\<close>; the last two are missing (NaN) for a spot whose label is no cell's.
\<close>

record 'f staged_spot =
  x_global :: int
  y_global :: int
  s_label :: int
  target :: string
  s_x_cell :: "'f option"
  s_y_cell :: "'f option"

text \<open>
  \<open>spots.merge(cells, how='left', on=['label'])\<close>, then the selection of the columns: a
  spot gives one row for every row of \<open>cells\<close> with its label, and one row with the cell's
  columns missing when there is none.
\<close>

definition staged_row :: "labelled_spot \<Rightarrow> 'f option \<Rightarrow> 'f option \<Rightarrow> 'f staged_spot" where
  "staged_row s xc yc =
     \<lparr>x_global = spot_x s, y_global = spot_y s, s_label = label s, target = Gene s,
      s_x_cell = xc, s_y_cell = yc\<rparr>"

definition left_rows :: "labelled_spot \<Rightarrow> ('f, 'p) cell_row list \<Rightarrow> 'f staged_spot list" where
  "left_rows s cells =
     (let matches = filter (\<lambda>c. p_label (fst c) = label s) cells
      in if matches = [] then [staged_row s None None]
         else map (\<lambda>c. staged_row s (Some (x_cell (fst c))) (Some (y_cell (fst c)))) matches)"

definition merge_left :: "labelled_spot list \<Rightarrow> ('f, 'p) cell_row list \<Rightarrow> 'f staged_spot list" where
  "merge_left spots cells = concat (map (\<lambda>s. left_rows s cells) spots)"

text \<open>
  \<open>stage_data\<close>. The three assertions are Python \<open>assert\<close> statements;
  \<open>cells.sort_values(...)\<close> returns a sorted copy that is dropped, so it has no effect.
  The result is \<open>(_cells, _cell_boundaries, _spots)\<close>.
\<close>

definition stage_data ::
  "(ndarray \<Rightarrow> exn + 'f prop_row list) \<Rightarrow> (ndarray \<Rightarrow> exn + 'p boundary_row list)
   \<Rightarrow> spot list \<Rightarrow> coo_matrix
   \<Rightarrow> exn + ((int \<times> 'f \<times> 'f \<times> 'f) list \<times> (int \<times> 'p) list \<times> 'f staged_spot list)" where
  "stage_data regionprops extract_borders_dip spots coo =
     (case stage_spots spots coo of
        Inl e \<Rightarrow> Inl e
      | Inr (coo', spots') \<Rightarrow>
     (case regionprops (astype_int32 (toarray coo')) of
        Inl e \<Rightarrow> Inl e
      | Inr props_df \<Rightarrow>
     (case extract_borders_dip (astype_uint32 (toarray coo')) of
        Inl e \<Rightarrow> Inl e
      | Inr cell_boundaries \<Rightarrow>
          if \<not> (length props_df = length cell_boundaries
                \<and> length cell_boundaries = length (np_unique (data coo')))
          then Inl AssertionError
          else if \<not> list_all (\<lambda>s. label s \<in> set (map p_label props_df))
                                (filter (\<lambda>s. label s > 0) spots')
          then Inl AssertionError
          else
            (let cells = merge_inner props_df cell_boundaries
             in if \<not> (length cells = length cell_boundaries
                       \<and> length cell_boundaries = length props_df)
                then Inl AssertionError
                else Inr (map (\<lambda>c. (p_label (fst c), area (fst c), x_cell (fst c), y_cell (fst c))) cells,
                          map (\<lambda>c. (p_label (fst c), snd c)) cells,
                          merge_left spots' cells)))))"

section \<open>The entry point \<open>fit\<close> (app.py)\<close>

subsection \<open>Files\<close>

text \<open>
  The part of the file system that \<open>write_to_disk\<close> touches: a path is a directory or a
  file with its text.
\<close>

datatype node = Dir | File string

type_synonym disk = "string \<rightharpoonup> node"

text \<open>\<open>os.path.join(a, b)\<close> for a relative \<open>b\<close>.\<close>

definition path_join :: "string \<Rightarrow> string \<Rightarrow> string" where
  "path_join a b =
     (if a = [] then b else if last a = CHR ''/'' then a @ b else a @ ''/'' @ b)"

text \<open>
  The three data frames that are written: \<open>cellData\<close> and \<open>geneData\<close>, of the types \<open>'cd\<close>
  and \<open>'gd\<close> that the cell calling algorithm returns, and \<open>cell_boundaries\<close>.
\<close>

datatype ('cd, 'gd, 'p) table =
    CellData 'cd
  | GeneData 'gd
  | CellBoundaries "(int \<times> 'p) list"

subsection \<open>Collaborators\<close>

text \<open>
  What \<open>fit\<close> calls and the sources do not hold, each a parameter:
  \<^item> \<open>regionprops\<close> (skimage) and \<open>extract_borders_dip\<close>, as in \<open>stage_data\<close>;
  \<^item> \<open>VarBayes_run\<close>: \<open>VarBayes(_cells, _spots, scRNAseq, ini).run()\<close>, the cell calling
    algorithm, which returns \<open>(cellData, geneData)\<close> or raises;
  \<^item> \<open>temp_dir\<close>: \<open>"/tmp"\<close> on Darwin, \<open>tempfile.gettempdir()\<close> elsewhere;
  \<^item> \<open>to_csv\<close>: the text pandas writes for a data frame (with \<open>sep='\t', index=False\<close>);
    writing it to a file is \<open>df_to_csv\<close> below;
  \<^item> \<open>splitter_mb\<close> and \<open>content\<close> (pciSeq.src.viewer.utils), which split a data frame into
    files of at most so many megabytes under a directory and list that directory; each
    takes the files and returns them, or raises.
\<close>

record ('sc, 'cd, 'gd, 'f, 'p) collaborators =
  regionprops :: "ndarray \<Rightarrow> exn + 'f prop_row list"
  extract_borders_dip :: "ndarray \<Rightarrow> exn + 'p boundary_row list"
  VarBayes_run :: "(int \<times> 'f \<times> 'f \<times> 'f) list \<Rightarrow> 'f staged_spot list \<Rightarrow> 'sc \<Rightarrow> config
                   \<Rightarrow> exn + 'cd \<times> 'gd"
  temp_dir :: string
  to_csv :: "('cd, 'gd, 'p) table \<Rightarrow> string"
  splitter_mb :: "('cd, 'gd, 'p) table \<Rightarrow> string \<Rightarrow> nat \<Rightarrow> disk \<Rightarrow> exn + disk"
  content :: "string \<Rightarrow> disk \<Rightarrow> exn + disk"

subsection \<open>\<open>cell_type\<close> and \<open>write_to_disk\<close>\<close>

definition cell_type ::
  "('sc, 'cd, 'gd, 'f, 'p) collaborators \<Rightarrow> (int \<times> 'f \<times> 'f \<times> 'f) list \<Rightarrow> 'f staged_spot list
   \<Rightarrow> 'sc \<Rightarrow> config \<Rightarrow> exn + 'cd \<times> 'gd" where
  "cell_type env cells spots scRNAseq ini = VarBayes_run env cells spots scRNAseq ini"

text \<open>\<open>splitter_mb(df, dir, 99)\<close> followed by \<open>content(dir)\<close>.\<close>

definition split_and_list ::
  "('sc, 'cd, 'gd, 'f, 'p) collaborators \<Rightarrow> ('cd, 'gd, 'p) table \<Rightarrow> string \<Rightarrow> disk \<Rightarrow> exn + disk" where
  "split_and_list env df dir d =
     (case splitter_mb env df dir 99 d of
        Inl e \<Rightarrow> Inl e
      | Inr d' \<Rightarrow> content env dir d')"

text \<open>
  \<open>os.makedirs(out_dir)\<close> for \<open>out_dir\<close> directly under \<open>parent\<close>, called when nothing exists at
  \<open>out_dir\<close>: it makes the directory, and \<open>parent\<close> when that is missing too, and raises
  \<open>OSError\<close> (\<open>NotADirectoryError\<close>) when \<open>parent\<close> is a file. What is above \<open>parent\<close> is not
  tracked.
\<close>

definition makedirs :: "string \<Rightarrow> string \<Rightarrow> disk \<Rightarrow> exn + disk" where
  "makedirs parent out_dir d =
     (if d parent = None then Inr (d(parent \<mapsto> Dir, out_dir \<mapsto> Dir))
      else if d parent = Some Dir then Inr (d(out_dir \<mapsto> Dir))
      else Inl OSError)"

text \<open>
  \<open>df.to_csv(os.path.join(out_dir, name), sep='\t', index=False)\<close>: pandas opens the file for
  writing, which creates it or replaces its text, and raises \<open>OSError\<close> when \<open>out_dir\<close> is not
  a directory (\<open>NotADirectoryError\<close>) or the path is one (\<open>IsADirectoryError\<close>).
\<close>

definition df_to_csv ::
  "('sc, 'cd, 'gd, 'f, 'p) collaborators \<Rightarrow> ('cd, 'gd, 'p) table \<Rightarrow> string \<Rightarrow> string \<Rightarrow> disk
   \<Rightarrow> exn + disk" where
  "df_to_csv env df out_dir name d =
     (if d out_dir = Some Dir \<and> d (path_join out_dir name) \<noteq> Some Dir
      then Inr (d(path_join out_dir name \<mapsto> File (to_csv env df)))
      else Inl OSError)"

text \<open>
  \<open>write_to_disk\<close>: the result is the exception raised, if any, and the files as they are
  when the function returns or raises.
\<close>

definition write_to_disk ::
  "('sc, 'cd, 'gd, 'f, 'p) collaborators \<Rightarrow> 'cd \<Rightarrow> 'gd \<Rightarrow> (int \<times> 'p) list \<Rightarrow> disk
   \<Rightarrow> exn option \<times> disk" where
  "write_to_disk env cellData geneData cell_boundaries d =
     (let out_dir = path_join (temp_dir env) ''pciSeq''
      in case (if d out_dir = None then makedirs (temp_dir env) out_dir d else Inr d) of
           Inl e \<Rightarrow> (Some e, d)
         | Inr d0 \<Rightarrow>
        (case df_to_csv env (CellData cellData) out_dir ''cellData.tsv'' d0 of
           Inl e \<Rightarrow> (Some e, d0)
         | Inr d1 \<Rightarrow>
        (case df_to_csv env (GeneData geneData) out_dir ''geneData.tsv'' d1 of
           Inl e \<Rightarrow> (Some e, d1)
         | Inr d2 \<Rightarrow>
        (case df_to_csv env (CellBoundaries cell_boundaries) out_dir ''cell_boundaries.tsv'' d2 of
           Inl e \<Rightarrow> (Some e, d2)
         | Inr d3 \<Rightarrow>
        (case split_and_list env (CellData cellData) (path_join out_dir ''cellData'') d3 of
           Inl e \<Rightarrow> (Some e, d3)
         | Inr d4 \<Rightarrow>
        (case split_and_list env (GeneData geneData) (path_join out_dir ''geneData'') d4 of
           Inl e \<Rightarrow> (Some e, d4)
         | Inr d5 \<Rightarrow>
        (case split_and_list env (CellBoundaries cell_boundaries)
                (path_join out_dir ''cell_boundaries'') d5 of
           Inl e \<Rightarrow> (Some e, d5)
         | Inr d6 \<Rightarrow> (None, d6))))))))"

subsection \<open>\<open>fit\<close>\<close>

text \<open>
  The state of the process that \<open>fit\<close> changes: the dictionary \<open>config.DEFAULT\<close> and the
  files.
\<close>

record world =
  config_DEFAULT :: config
  disk :: disk

definition fit ::
  "('sc, 'cd, 'gd, 'f, 'p) collaborators \<Rightarrow> spot list \<Rightarrow> coo_matrix \<Rightarrow> 'sc \<Rightarrow> opts option
   \<Rightarrow> world \<Rightarrow> (exn + 'cd \<times> 'gd) \<times> world" where
  "fit env iss_spots coo scRNAseq opts w =
     (case init opts (config_DEFAULT w) of
        (Inl e, D) \<Rightarrow> (Inl e, w\<lparr>config_DEFAULT := D\<rparr>)
      | (Inr cfg, D) \<Rightarrow>
     (case stage_data (regionprops env) (extract_borders_dip env) iss_spots coo of
        Inl e \<Rightarrow> (Inl e, w\<lparr>config_DEFAULT := D\<rparr>)
      | Inr (cells, cell_boundaries, spots) \<Rightarrow>
     (case cell_type env cells spots scRNAseq cfg of
        Inl e \<Rightarrow> (Inl e, w\<lparr>config_DEFAULT := D\<rparr>)
      | Inr (cellData, geneData) \<Rightarrow>
     (case write_to_disk env cellData geneData cell_boundaries (disk w) of
        (Some e, d) \<Rightarrow> (Inl e, \<lparr>config_DEFAULT = D, disk = d\<rparr>)
      | (None, d) \<Rightarrow> (Inr (cellData, geneData), \<lparr>config_DEFAULT = D, disk = d\<rparr>)))))"

text \<open>Collaborators for the examples: two cells, and a cell calling algorithm that fails.\<close>

definition demo_env :: "(unit, unit, unit, nat, unit) collaborators" where
  "demo_env =
     \<lparr>regionprops = (\<lambda>a. Inr [\<lparr>p_label = 1, area = 1, x_cell = 0, y_cell = 0\<rparr>,
                              \<lparr>p_label = 2, area = 1, x_cell = 1, y_cell = 1\<rparr>]),
      extract_borders_dip = (\<lambda>a. Inr [(1, ()), (2, ())]),
      VarBayes_run = (\<lambda>cells spots sc ini. Inl (Raised ''SchemaError'')),
      temp_dir = ''/tmp'',
      to_csv = (\<lambda>t. ''''),
      splitter_mb = (\<lambda>t dir mb d. Inr d),
      content = (\<lambda>dir d. Inr d)\<rparr>"

text \<open>The same collaborators with a cell calling algorithm that returns.\<close>

definition demo_env_ok :: "(unit, unit, unit, nat, unit) collaborators" where
  "demo_env_ok = demo_env\<lparr>VarBayes_run := (\<lambda>cells spots sc ini. Inr ((), ()))\<rparr>"

section \<open>The inference engine\<close>

text \<open>
  The engine (the class \<open>VarBayes\<close> of pciSeq.src.cell_call.main, which \<open>cell_type\<close> runs) is
  not among the sources. This section models it from the spec, section 4.2: the state, and
  one iteration as the composition of the spot-assignment step, the cell-classification
  step and the efficiency update. The spec gives no formula for the weights and
  likelihoods; they are parameters of the model. Numbers are real numbers: rounding of
  floating-point arithmetic is not modelled.
\<close>

text \<open>
  Modelled from the spec: a probability, a real number from 0 to 1. The spec gives the
  background weight as a "prior probability of misread/noise" (section 4.2) and lists it
  among the hyperparameters as the "background/misread prior probability" (section 6). The
  engine's configuration is missing from the sources.
\<close>

typedef probability = "{p :: real. 0 \<le> p \<and> p \<le> 1}"
  by (rule exI [of _ 0]) simp

text \<open>
  Modelled from the spec: the hyperparameters the engine's control flow reads (section 6):
  maximum iterations, convergence tolerance, the background/misread prior probability, and
  the range the efficiency factors are clamped to. The \<open>VarBayes\<close> class and its
  configuration are missing from the sources.
\<close>

record hyper =
  max_iter :: nat
  tolerance :: real
  misread_prior :: probability
  efficiency_lo :: real
  efficiency_hi :: real

text \<open>
  Modelled from the spec: what the Geometry Preprocessor and the Reference Expression Model
  hand to the engine (section 6), as far as the shape of the state depends on it: the number
  of cells, of reference classes (the generic class is added to them) and of genes, and
  for every spot the ordered list of its candidate cells; the background entry is implicit,
  at the end of every list. The engine's input types are missing from the sources.
\<close>

record engine_input =
  n_cells :: nat
  n_ref_classes :: nat
  n_genes :: nat
  candidates :: "nat list list"

text \<open>
  Modelled from the spec: the quantities of the generative model that section 4.2 names
  without a formula, each computed in log-space: the weight of candidate \<open>j\<close> of spot \<open>i\<close>
  (from the cells' class posteriors and the efficiency factors), the likelihood of class
  \<open>k\<close> for cell \<open>c\<close> (from the spots' posteriors and the efficiency factors), and the ratio
  of observed to expected counts of gene \<open>g\<close>. The code that computes them is missing from
  the sources.
\<close>

record generative_model =
  spot_logweight :: "real list list \<Rightarrow> real list \<Rightarrow> nat \<Rightarrow> nat \<Rightarrow> real"
  class_loglik :: "real list list \<Rightarrow> real list \<Rightarrow> nat \<Rightarrow> nat \<Rightarrow> real"
  efficiency_ratio :: "real list list \<Rightarrow> real list list \<Rightarrow> nat \<Rightarrow> real"

text \<open>
  Modelled from the spec: the engine's state (section 4.2): for every cell a class-posterior
  vector, for every spot a candidate-posterior vector (the background entry last), for
  every gene an efficiency factor. The engine's state is missing from the sources.
\<close>

record engine_state =
  cell_post :: "real list list"
  spot_post :: "real list list"
  efficiency :: "real list"

text \<open>
  Modelled from the spec: "normalize these weights into the posterior": every weight
  divided by the sum of all. The engine's code is missing from the sources.
\<close>

definition normalise :: "real list \<Rightarrow> real list" where
  "normalise ws = map (\<lambda>w. w / sum_list ws) ws"

text \<open>
  Modelled from the spec: the spot-assignment step. For each spot, the weight of every
  candidate cell is exponentiated from log-space "immediately before normalization", the
  background pseudo-cell "receives a fixed configurable weight representing prior
  probability of misread/noise", and the weights are normalised into the spot's posterior.
  The boundary case of section 8: "a spot with zero candidate cells other than background
  is assigned to background with probability 1". The engine's code is missing from the
  sources.
\<close>

definition nextSpotPosteriors ::
  "generative_model \<Rightarrow> hyper \<Rightarrow> engine_input \<Rightarrow> real list list \<Rightarrow> real list \<Rightarrow> real list list" where
  "nextSpotPosteriors M H I cells eff =
     map (\<lambda>i. if candidates I ! i = [] then [1]
              else normalise
                (map (\<lambda>j. exp (spot_logweight M cells eff i j)) [0..<length (candidates I ! i)]
                 @ [Rep_probability (misread_prior H)]))
       [0..<length (candidates I)]"

text \<open>
  Modelled from the spec: the cell-classification step. For each cell, a likelihood per
  class (the reference classes and the generic class), exponentiated from log-space and
  normalised into the cell's class posterior. The engine's code is missing from the
  sources.
\<close>

definition nextCellPosteriors ::
  "generative_model \<Rightarrow> engine_input \<Rightarrow> real list list \<Rightarrow> real list \<Rightarrow> real list list" where
  "nextCellPosteriors M I spots eff =
     map (\<lambda>c. normalise (map (\<lambda>k. exp (class_loglik M spots eff c k)) [0..<Suc (n_ref_classes I)]))
       [0..<n_cells I]"

text \<open>
  Modelled from the spec: the efficiency-factor update: the ratio of observed to expected
  counts, clamped to the configured range. The engine's code is missing from the sources.
\<close>

definition nextEfficiency ::
  "generative_model \<Rightarrow> hyper \<Rightarrow> engine_input \<Rightarrow> real list list \<Rightarrow> real list list \<Rightarrow> real list" where
  "nextEfficiency M H I spots cells =
     map (\<lambda>g. max (efficiency_lo H) (min (efficiency_hi H) (efficiency_ratio M spots cells g)))
       [0..<n_genes I]"

text \<open>
  Modelled from the spec: one iteration, steps 1 to 3 of section 4.2 in order, each step
  reading what the step before it has committed. The engine's code is missing from the
  sources.
\<close>

definition iteration :: "generative_model \<Rightarrow> hyper \<Rightarrow> engine_input \<Rightarrow> engine_state \<Rightarrow> engine_state" where
  "iteration M H I s =
     (let spots = nextSpotPosteriors M H I (cell_post s) (efficiency s);
          cells = nextCellPosteriors M I spots (efficiency s);
          eff = nextEfficiency M H I spots cells
      in \<lparr>cell_post = cells, spot_post = spots, efficiency = eff\<rparr>)"

text \<open>
  Modelled from the spec: the testable property of a posterior vector (section 8): no
  negative entry, and the entries sum to 1 within \<open>1e-6\<close>; a state is valid when every
  cell's and every spot's posterior is. The engine's tests are missing from the sources.
\<close>

definition posterior_ok :: "real list \<Rightarrow> bool" where
  "posterior_ok p = (list_all (\<lambda>v. 0 \<le> v) p \<and> \<bar>sum_list p - 1\<bar> \<le> 1 / 10 ^ 6)"

definition state_ok :: "engine_state \<Rightarrow> bool" where
  "state_ok s = (list_all posterior_ok (cell_post s) \<and> list_all posterior_ok (spot_post s))"


section \<open>Properties of \<open>init\<close>\<close>

subsection \<open>What the loop leaves in the dictionary\<close>

lemma init_items_ok:
  "list_all (\<lambda>item. isinstance_int_float_list (snd item)) items
   \<Longrightarrow> init_items cfg items = (None, cfg ++ map_of (rev items))"
proof (induction items arbitrary: cfg)
  case Nil
  show ?case by simp
next
  case (Cons item items)
  have "cfg(fst item \<mapsto> snd item) ++ map_of (rev items)
      = cfg ++ map_of (rev items @ [item])"
    by (cases item) (simp add: map_add_upd_left fun_eq_iff map_add_def split: option.splits)
  with Cons show ?case by simp
qed

lemma init_items_bad:
  "\<not> list_all (\<lambda>item. isinstance_int_float_list (snd item)) items
   \<Longrightarrow> fst (init_items cfg items) = Some TypeError"
  by (induction items arbitrary: cfg) auto

lemma map_of_rev_distinct:
  "distinct (map fst items) \<Longrightarrow> map_of (rev items) = map_of items"
  by (rule map_of_inject_set [THEN iffD2]) (simp_all add: rev_map [symmetric])

lemma init_result:
  "fst (init (Some items) DEFAULT) =
     (if \<not> list_all (\<lambda>k. k \<in> dom DEFAULT) (map fst items) then Inl AssertionError
      else if \<not> list_all (\<lambda>item. isinstance_int_float_list (snd item)) items
      then Inl TypeError
      else Inr (DEFAULT ++ map_of (rev items)))"
proof (cases "list_all (\<lambda>item. isinstance_int_float_list (snd item)) items")
  case True
  then show ?thesis by (simp add: init_def init_items_ok)
next
  case False
  from init_items_bad [OF this, of DEFAULT] show ?thesis
    using False by (cases "init_items DEFAULT items") (simp add: init_def)
qed

lemma init_returns_DEFAULT:
  "init opts DEFAULT = (Inr cfg, D') \<Longrightarrow> cfg = D'"
  by (auto simp: init_def split: option.splits if_splits prod.splits)

text \<open>
  C10. For every \<open>opts\<close> dictionary: a key that is not a key of the default configuration
  makes \<open>init\<close> raise \<open>AssertionError\<close>; otherwise a value that is neither an int, a float
  nor a list makes it raise \<open>TypeError\<close>; otherwise \<open>init\<close> returns the defaults overridden
  by \<open>opts\<close>, so the returned configuration maps every key of \<open>opts\<close> to the value
  supplied for it.
\<close>

theorem init_checks_opts:
  assumes "distinct (map fst items)"
  shows "fst (init (Some items) DEFAULT) =
           (if \<not> list_all (\<lambda>k. k \<in> dom DEFAULT) (map fst items) then Inl AssertionError
            else if \<not> list_all (\<lambda>item. isinstance_int_float_list (snd item)) items
            then Inl TypeError
            else Inr (DEFAULT ++ map_of items))
       \<and> (\<forall>cfg k v. fst (init (Some items) DEFAULT) = Inr cfg \<longrightarrow> (k, v) \<in> set items
             \<longrightarrow> cfg k = Some v)"
proof -
  have eq: "map_of (rev items) = map_of items"
    using assms by (rule map_of_rev_distinct)
  have res: "fst (init (Some items) DEFAULT) =
           (if \<not> list_all (\<lambda>k. k \<in> dom DEFAULT) (map fst items) then Inl AssertionError
            else if \<not> list_all (\<lambda>item. isinstance_int_float_list (snd item)) items
            then Inl TypeError
            else Inr (DEFAULT ++ map_of items))"
    using init_result [of items DEFAULT] by (simp only: eq)
  have "cfg k = Some v"
    if "fst (init (Some items) DEFAULT) = Inr cfg" and "(k, v) \<in> set items" for cfg k v
  proof -
    from that(1) res have "cfg = DEFAULT ++ map_of items"
      by (simp split: if_splits)
    moreover from assms that(2) have "map_of items k = Some v"
      by simp
    ultimately show ?thesis
      by (simp add: map_add_def)
  qed
  with res show ?thesis by blast
qed

theorem init_checks_opts_witness:
  "distinct (map fst [(''max_iter'', PyInt 10), (''exclude_genes'', PyList [PyStr ''Npy''])])
   \<and> fst (init (Some [(''max_iter'', PyInt 10), (''exclude_genes'', PyList [PyStr ''Npy''])])
            [''max_iter'' \<mapsto> PyInt 1000, ''exclude_genes'' \<mapsto> PyList [],
             ''Inefficiency'' \<mapsto> PyFloat 0.2])
     = Inr [''Inefficiency'' \<mapsto> PyFloat 0.2, ''exclude_genes'' \<mapsto> PyList [PyStr ''Npy''],
            ''max_iter'' \<mapsto> PyInt 10]
   \<and> fst (init (Some [(''max_iter'', PyStr ''10'')]) [''max_iter'' \<mapsto> PyInt 1000])
     = Inl TypeError
   \<and> fst (init (Some [(''maxiter'', PyInt 10)]) [''max_iter'' \<mapsto> PyInt 1000])
     = Inl AssertionError"
proof -
  have d: "distinct (map fst [(''max_iter'', PyInt 10), (''exclude_genes'', PyList [PyStr ''Npy''])])"
    by simp
  have e: "[''max_iter'' \<mapsto> PyInt 1000, ''exclude_genes'' \<mapsto> PyList [],
            ''Inefficiency'' \<mapsto> PyFloat 0.2]
        ++ map_of [(''max_iter'', PyInt 10), (''exclude_genes'', PyList [PyStr ''Npy''])]
      = [''Inefficiency'' \<mapsto> PyFloat 0.2, ''exclude_genes'' \<mapsto> PyList [PyStr ''Npy''],
         ''max_iter'' \<mapsto> PyInt 10]"
    by (rule ext) (simp add: map_add_def)
  have r1: "fst (init (Some [(''max_iter'', PyInt 10), (''exclude_genes'', PyList [PyStr ''Npy''])])
            [''max_iter'' \<mapsto> PyInt 1000, ''exclude_genes'' \<mapsto> PyList [],
             ''Inefficiency'' \<mapsto> PyFloat 0.2])
     = Inr ([''max_iter'' \<mapsto> PyInt 1000, ''exclude_genes'' \<mapsto> PyList [],
             ''Inefficiency'' \<mapsto> PyFloat 0.2]
        ++ map_of [(''max_iter'', PyInt 10), (''exclude_genes'', PyList [PyStr ''Npy''])])"
    by (subst init_checks_opts [OF d, THEN conjunct1]) simp
  have r2: "fst (init (Some [(''max_iter'', PyStr ''10'')]) [''max_iter'' \<mapsto> PyInt 1000])
     = Inl TypeError"
    using init_checks_opts [of "[(''max_iter'', PyStr ''10'')]" "[''max_iter'' \<mapsto> PyInt 1000]"]
    by simp
  have r3: "fst (init (Some [(''maxiter'', PyInt 10)]) [''max_iter'' \<mapsto> PyInt 1000])
     = Inl AssertionError"
    using init_checks_opts [of "[(''maxiter'', PyInt 10)]" "[''max_iter'' \<mapsto> PyInt 1000]"]
    by simp
  show ?thesis
    by (rule conjI d r1 [unfolded e] r2 r3)+
qed

text \<open>
  C1. The claim: the options of one call of \<open>init\<close> do not change the defaults the next call
  sees, and a call with \<open>opts = None\<close> returns the defaults whatever was called before. The
  code: a first call that sets a key to 10 writes it into \<open>config.DEFAULT\<close>, and a second
  call with \<open>opts = None\<close> returns that dictionary, with 10 where the default was 1000; the
  same call made first returns the default.
\<close>

theorem init_overrides_persist:
  "init_twice (Some [(k, PyInt 10)]) None (D(k \<mapsto> PyInt 1000))
     = (Inr (D(k \<mapsto> PyInt 10)), Inr (D(k \<mapsto> PyInt 10)))
   \<and> fst (init None (D(k \<mapsto> PyInt 1000))) = Inr (D(k \<mapsto> PyInt 1000))"
  by (simp add: init_twice_def init_def)

section \<open>Properties of \<open>stage_data\<close>\<close>

subsection \<open>Labels of the retained spots\<close>

lemma getitem_spots_Inr:
  "getitem_spots m ss = Inr vs \<Longrightarrow>
   list_all2 (\<lambda>s v. csr_getitem m (spot_y s) (spot_x s) = Inr v) ss vs"
proof (induction ss arbitrary: vs)
  case Nil
  then show ?case by simp
next
  case (Cons s ss)
  then show ?case
    by (auto split: sum.splits)
qed

lemma csr_getitem_nonneg:
  assumes "csr_getitem (Csr a) r c = Inr v" and "0 \<le> r" and "0 \<le> c"
  shows "r < int (fst (nshape a)) \<and> c < int (snd (nshape a)) \<and> v = pixel a (nat r) (nat c)"
  using assms by (auto simp: csr_getitem_def Let_def split: if_splits)

lemma assign_label_fields:
  assumes "list_all2 P ss vs"
  shows "list_all2 (\<lambda>s t. Gene t = Gene s \<and> spot_x t = spot_x s \<and> spot_y t = spot_y s \<and> P s (label t))
           ss (assign_label ss vs)"
  using assms unfolding assign_label_def
  by (induction rule: list_all2_induct) simp_all

lemma stage_spots_Inr:
  assumes "stage_spots spots coo = Inr (coo', ls)"
  shows "stage_relabel coo = Inr coo'
       \<and> list_all2 (\<lambda>s t. Gene t = Gene s \<and> spot_x t = spot_x s \<and> spot_y t = spot_y s
             \<and> csr_getitem (tocsr coo') (spot_y s) (spot_x s) = Inr (label t))
           (filter (in_mask coo') spots) ls"
proof -
  from assms obtain inc where r: "stage_relabel coo = Inr coo'"
    and i: "getitem_spots (tocsr coo') (filter (in_mask coo') spots) = Inr inc"
    and l: "ls = assign_label (filter (in_mask coo') spots) inc"
    by (auto simp: stage_spots_def inside_cell_def Let_def split: sum.splits if_splits)
  from getitem_spots_Inr [OF i] have "list_all2 (\<lambda>s t. Gene t = Gene s \<and> spot_x t = spot_x s \<and> spot_y t = spot_y s
             \<and> csr_getitem (tocsr coo') (spot_y s) (spot_x s) = Inr (label t))
           (filter (in_mask coo') spots) (assign_label (filter (in_mask coo') spots) inc)"
    by (rule assign_label_fields)
  with r l show ?thesis by simp
qed

lemma left_rows_fields:
  assumes "t \<in> set (left_rows s cells)"
  shows "x_global t = spot_x s \<and> y_global t = spot_y s \<and> s_label t = label s \<and> target t = Gene s"
  using assms by (auto simp: left_rows_def staged_row_def Let_def split: if_splits)

lemma left_rows_nonempty: "left_rows s cells \<noteq> []"
  by (simp add: left_rows_def Let_def)

lemma merge_left_sound:
  assumes "t \<in> set (merge_left ls cells)"
  shows "\<exists>s \<in> set ls. x_global t = spot_x s \<and> y_global t = spot_y s
           \<and> s_label t = label s \<and> target t = Gene s"
proof -
  from assms obtain s where "s \<in> set ls" and "t \<in> set (left_rows s cells)"
    by (auto simp: merge_left_def)
  with left_rows_fields [of t s cells] show ?thesis by blast
qed

lemma merge_left_complete:
  assumes "s \<in> set ls"
  shows "\<exists>t \<in> set (merge_left ls cells). x_global t = spot_x s \<and> y_global t = spot_y s
           \<and> s_label t = label s \<and> target t = Gene s"
proof -
  from left_rows_nonempty [of s cells] obtain t where t: "t \<in> set (left_rows s cells)"
    by (cases "left_rows s cells") auto
  with assms have "t \<in> set (merge_left ls cells)"
    by (auto simp: merge_left_def)
  with left_rows_fields [OF t] show ?thesis by blast
qed

lemma stage_data_Inr:
  assumes "stage_data props_fn borders_fn spots coo = Inr (cells, bnds, staged)"
  shows "\<exists>coo' ls props bs. stage_spots spots coo = Inr (coo', ls)
           \<and> props_fn (astype_int32 (toarray coo')) = Inr props
           \<and> borders_fn (astype_uint32 (toarray coo')) = Inr bs
           \<and> staged = merge_left ls (merge_inner props bs)"
  using assms unfolding stage_data_def
  by (simp add: Let_def split: sum.splits if_splits prod.splits)

text \<open>
  When \<open>stage_data\<close> returns, every spot of the returned \<open>_spots\<close> lies inside the image, and
  its label is the value at row \<open>y\<close>, column \<open>x\<close> of the label image as it is after the first
  statement of \<open>stage_data\<close>, relabelled or not. The returned spots are the ones that pass
  the coordinate filter: each of them comes from one, and each spot that passes has a row.
\<close>

lemma stage_data_labels_of_relabelled_image:
  assumes "stage_data props_fn borders_fn spots coo = Inr (cells, bnds, staged)"
  shows "\<exists>coo'. stage_relabel coo = Inr coo'
     \<and> (\<forall>t \<in> set staged.
           0 \<le> x_global t \<and> x_global t < int (snd (shape coo'))
         \<and> 0 \<le> y_global t \<and> y_global t < int (fst (shape coo'))
         \<and> s_label t = pixel (toarray coo') (nat (y_global t)) (nat (x_global t))
         \<and> (\<exists>s \<in> set spots. in_mask coo' s
               \<and> x_global t = spot_x s \<and> y_global t = spot_y s \<and> target t = Gene s))
     \<and> (\<forall>s \<in> set spots. in_mask coo' s \<longrightarrow>
           (\<exists>t \<in> set staged. x_global t = spot_x s \<and> y_global t = spot_y s \<and> target t = Gene s))"
proof -
  from stage_data_Inr [OF assms] obtain coo' ls props bs
    where sp: "stage_spots spots coo = Inr (coo', ls)"
      and eb: "borders_fn (astype_uint32 (toarray coo')) = Inr bs"
      and st: "staged = merge_left ls (merge_inner props bs)"
    by blast
  let ?kept = "filter (in_mask coo') spots"
  let ?R = "\<lambda>s t. Gene t = Gene s \<and> spot_x t = spot_x s \<and> spot_y t = spot_y s
             \<and> csr_getitem (tocsr coo') (spot_y s) (spot_x s) = Inr (label t)"
  from stage_spots_Inr [OF sp] have rel: "stage_relabel coo = Inr coo'"
    and all2: "list_all2 ?R ?kept ls"
    by simp_all
  have sound: "0 \<le> x_global t \<and> x_global t < int (snd (shape coo'))
         \<and> 0 \<le> y_global t \<and> y_global t < int (fst (shape coo'))
         \<and> s_label t = pixel (toarray coo') (nat (y_global t)) (nat (x_global t))
         \<and> (\<exists>s \<in> set spots. in_mask coo' s
               \<and> x_global t = spot_x s \<and> y_global t = spot_y s \<and> target t = Gene s)"
    if "t \<in> set staged" for t
  proof -
    from that st obtain l where l: "l \<in> set ls"
      and tl: "x_global t = spot_x l" "y_global t = spot_y l" "s_label t = label l" "target t = Gene l"
      using merge_left_sound by blast
    from l obtain i where i: "i < length ls" "ls ! i = l"
      by (auto simp: in_set_conv_nth)
    from all2 i have len: "i < length ?kept" and R: "?R (?kept ! i) l"
      by (auto simp: list_all2_conv_all_nth)
    define s where "s = ?kept ! i"
    from len have "s \<in> set ?kept"
      unfolding s_def by (rule nth_mem)
    then have s: "s \<in> set spots" "in_mask coo' s"
      by simp_all
    from R have sl: "Gene l = Gene s" "spot_x l = spot_x s" "spot_y l = spot_y s"
      and get: "csr_getitem (Csr (toarray coo')) (spot_y s) (spot_x s) = Inr (label l)"
      by (simp_all add: s_def tocsr_def)
    from s(2) have nn: "0 \<le> spot_y s" "0 \<le> spot_x s"
      by (simp_all add: in_mask_def)
    from csr_getitem_nonneg [OF get nn]
    have b: "spot_y s < int (fst (shape coo'))" "spot_x s < int (snd (shape coo'))"
      and v: "label l = pixel (toarray coo') (nat (spot_y s)) (nat (spot_x s))"
      by (simp_all add: toarray_def)
    from tl sl nn b v s show ?thesis
      by auto
  qed
  have complete: "\<exists>t \<in> set staged. x_global t = spot_x s \<and> y_global t = spot_y s \<and> target t = Gene s"
    if "s \<in> set spots" and "in_mask coo' s" for s
  proof -
    from that have "s \<in> set ?kept" by simp
    then obtain i where i: "i < length ?kept" "?kept ! i = s"
      unfolding in_set_conv_nth by blast
    from all2 i have len: "i < length ls" and R: "?R s (ls ! i)"
      by (auto simp: list_all2_conv_all_nth)
    from len have "ls ! i \<in> set ls" by (rule nth_mem)
    from merge_left_complete [OF this, of "merge_inner props bs"] R st
    show ?thesis by auto
  qed
  from rel sound complete show ?thesis by blast
qed

subsection \<open>A spot inside a cell that relabelling turns into background\<close>

text \<open>
  C3. The claim: the label attached to a retained spot is the value of the (possibly
  relabelled) image at the spot's pixel, and it is 0 exactly when no segmented cell contains
  the spot. The code: the label is read from the relabelled image, and relabelling an image
  that has no background pixel turns its smallest label into 0 (the defect of
  \<open>reorder_labels\<close>). In the image \<open>[[2, 3]]\<close> the pixel at row 0, column 0 belongs to cell 2;
  \<open>stage_data\<close> gives the spot at that pixel the label 0 and no cell.
\<close>

theorem stage_data_label_zero_inside_cell:
  "cell_at (toarray \<lparr>shape = (1, 2), row = [0, 0], col = [0, 1], data = [2, 3]\<rparr>) 0 0 = Some 2
   \<and> stage_spots [\<lparr>Gene = ''g'', spot_x = 0, spot_y = 0\<rparr>]
         \<lparr>shape = (1, 2), row = [0, 0], col = [0, 1], data = [2, 3]\<rparr>
       = Inr (\<lparr>shape = (1, 2), row = [0], col = [1], data = [1]\<rparr>,
              [\<lparr>Gene = ''g'', spot_x = 0, spot_y = 0, label = 0\<rparr>])
   \<and> stage_data
         (\<lambda>a. Inr [\<lparr>p_label = 1, area = (1::nat), x_cell = 1, y_cell = 0\<rparr>])
         (\<lambda>a. Inr [(1, ())])
         [\<lparr>Gene = ''g'', spot_x = 0, spot_y = 0\<rparr>]
         \<lparr>shape = (1, 2), row = [0, 0], col = [0, 1], data = [2, 3]\<rparr>
       = Inr ([(1, 1, 1, 0)], [(1, ())],
              [\<lparr>x_global = 0, y_global = 0, s_label = 0, target = ''g'',
                s_x_cell = None, s_y_cell = None\<rparr>])"
  by code_simp

subsection \<open>A spot on the right or lower edge\<close>

lemma stage_spots_edge:
  "stage_spots [\<lparr>Gene = ''g'', spot_x = 1, spot_y = 0\<rparr>]
     \<lparr>shape = (1, 1), row = [0], col = [0], data = [1]\<rparr> = Inl IndexError"
  by code_simp

text \<open>
  C9. The claim: a spot that passes the coordinate filter is read inside the bounds of the
  label image. The code: the filter keeps \<open>x = width\<close> (and \<open>y = height\<close>), one past the last
  column (row). On a one-pixel image the spot at \<open>x = 1\<close>, \<open>y = 0\<close> passes the filter, and
  \<open>stage_data\<close> raises \<open>IndexError\<close> when it reads the image there, whatever the
  collaborators are.
\<close>

theorem stage_data_edge_spot_raises:
  "in_mask \<lparr>shape = (1, 1), row = [0], col = [0], data = [1]\<rparr>
     \<lparr>Gene = ''g'', spot_x = 1, spot_y = 0\<rparr>
   \<and> stage_data props_fn borders_fn [\<lparr>Gene = ''g'', spot_x = 1, spot_y = 0\<rparr>]
       \<lparr>shape = (1, 1), row = [0], col = [0], data = [1]\<rparr> = Inl IndexError"
proof -
  have kept: "in_mask \<lparr>shape = (1, 1), row = [0], col = [0], data = [1]\<rparr>
     \<lparr>Gene = ''g'', spot_x = 1, spot_y = 0\<rparr>"
    by (simp add: in_mask_def)
  have raised: "stage_data props_fn borders_fn [\<lparr>Gene = ''g'', spot_x = 1, spot_y = 0\<rparr>]
       \<lparr>shape = (1, 1), row = [0], col = [0], data = [1]\<rparr> = Inl IndexError"
    unfolding stage_data_def stage_spots_edge by simp
  from kept raised show ?thesis by (rule conjI)
qed

subsection \<open>Relabelling an image without background\<close>

text \<open>
  C2. The claim: when the stored labels are not \<open>1..N\<close>, relabelling makes them \<open>1..N\<close> and
  keeps label 0 for the background only. The code: \<open>reorder_labels\<close> numbers the distinct
  values of the whole image from 0, so when no pixel is background the smallest label
  becomes 0. The image \<open>[[2, 3]]\<close> of two cells becomes \<open>[[0, 1]]\<close>: one cell, and the pixel
  of the former cell 2 is background.
\<close>

theorem stage_relabel_without_background:
  "toarray \<lparr>shape = (1, 2), row = [0, 0], col = [0, 1], data = [2, 3]\<rparr>
     = \<lparr>nshape = (1, 2), flat = [2, 3]\<rparr>
   \<and> stage_relabel \<lparr>shape = (1, 2), row = [0, 0], col = [0, 1], data = [2, 3]\<rparr>
     = Inr \<lparr>shape = (1, 2), row = [0], col = [1], data = [1]\<rparr>
   \<and> toarray \<lparr>shape = (1, 2), row = [0], col = [1], data = [1]\<rparr>
     = \<lparr>nshape = (1, 2), flat = [0, 1]\<rparr>"
  by code_simp

section \<open>Properties of \<open>fit\<close>\<close>

lemma fit_stage_data_raises:
  assumes "stage_data (regionprops env) (extract_borders_dip env) iss_spots coo = Inl e"
  shows "disk (snd (fit env iss_spots coo scRNAseq opts w)) = disk w
       \<and> fst (fit env iss_spots coo scRNAseq opts w)
           = (case fst (init opts (config_DEFAULT w)) of Inl e0 \<Rightarrow> Inl e0 | Inr cfg \<Rightarrow> Inl e)"
  using assms by (simp add: fit_def split: prod.splits sum.splits)

lemma fit_cell_type_raises:
  assumes "fst (init opts (config_DEFAULT w)) = Inr cfg"
    and "stage_data (regionprops env) (extract_borders_dip env) iss_spots coo = Inr (cells, bnds, spots)"
    and "cell_type env cells spots scRNAseq cfg = Inl e"
  shows "disk (snd (fit env iss_spots coo scRNAseq opts w)) = disk w
       \<and> fst (fit env iss_spots coo scRNAseq opts w) = Inl e"
  using assms by (cases "init opts (config_DEFAULT w)") (simp add: fit_def)

lemma fit_writes_only_results:
  assumes "disk (snd (fit env iss_spots coo scRNAseq opts w)) \<noteq> disk w"
  shows "\<exists>cfg cells bnds spots cellData geneData.
           fst (init opts (config_DEFAULT w)) = Inr cfg
         \<and> stage_data (regionprops env) (extract_borders_dip env) iss_spots coo = Inr (cells, bnds, spots)
         \<and> cell_type env cells spots scRNAseq cfg = Inr (cellData, geneData)
         \<and> disk (snd (fit env iss_spots coo scRNAseq opts w))
             = snd (write_to_disk env cellData geneData bnds (disk w))"
  using assms by (auto simp add: fit_def split: prod.splits sum.splits option.splits)


text \<open>
  C4. An exception raised by \<open>stage_data\<close> or by \<open>cell_type\<close> leaves the files as they
  were and is what \<open>fit\<close> raises (unless \<open>init\<close> has raised before \<open>stage_data\<close> is
  called). The files change only when \<open>init\<close>, \<open>stage_data\<close> and \<open>cell_type\<close> have all
  returned, and then by \<open>write_to_disk\<close> on the \<open>cellData\<close> and \<open>geneData\<close> that \<open>cell_type\<close>
  returned.
\<close>

theorem fit_no_output_on_error:
  "(\<forall>e. stage_data (regionprops env) (extract_borders_dip env) iss_spots coo = Inl e \<longrightarrow>
        disk (snd (fit env iss_spots coo scRNAseq opts w)) = disk w
      \<and> fst (fit env iss_spots coo scRNAseq opts w)
          = (case fst (init opts (config_DEFAULT w)) of Inl e0 \<Rightarrow> Inl e0 | Inr cfg \<Rightarrow> Inl e))
   \<and> (\<forall>cfg cells bnds spots e.
        fst (init opts (config_DEFAULT w)) = Inr cfg \<longrightarrow>
        stage_data (regionprops env) (extract_borders_dip env) iss_spots coo
          = Inr (cells, bnds, spots) \<longrightarrow>
        cell_type env cells spots scRNAseq cfg = Inl e \<longrightarrow>
        disk (snd (fit env iss_spots coo scRNAseq opts w)) = disk w
      \<and> fst (fit env iss_spots coo scRNAseq opts w) = Inl e)
   \<and> (disk (snd (fit env iss_spots coo scRNAseq opts w)) \<noteq> disk w \<longrightarrow>
        (\<exists>cfg cells bnds spots cellData geneData.
           fst (init opts (config_DEFAULT w)) = Inr cfg
         \<and> stage_data (regionprops env) (extract_borders_dip env) iss_spots coo
             = Inr (cells, bnds, spots)
         \<and> cell_type env cells spots scRNAseq cfg = Inr (cellData, geneData)
         \<and> disk (snd (fit env iss_spots coo scRNAseq opts w))
             = snd (write_to_disk env cellData geneData bnds (disk w))))"
  using fit_stage_data_raises [of env iss_spots coo _ scRNAseq opts w]
    fit_cell_type_raises [of opts w _ env iss_spots coo _ _ _ scRNAseq]
    fit_writes_only_results [of env iss_spots coo scRNAseq opts w]
  by blast

theorem fit_no_output_on_error_witness:
  "stage_data (regionprops demo_env) (extract_borders_dip demo_env)
     [\<lparr>Gene = ''g'', spot_x = 0, spot_y = 0\<rparr>] \<lparr>shape = (1, 1), row = [], col = [], data = []\<rparr> = Inl ValueError
   \<and> disk (snd (fit demo_env [\<lparr>Gene = ''g'', spot_x = 0, spot_y = 0\<rparr>] \<lparr>shape = (1, 1), row = [], col = [], data = []\<rparr> () None
                  \<lparr>config_DEFAULT = Map.empty, disk = Map.empty\<rparr>)) = Map.empty
   \<and> fst (fit demo_env [\<lparr>Gene = ''g'', spot_x = 0, spot_y = 0\<rparr>] \<lparr>shape = (1, 1), row = [], col = [], data = []\<rparr> () None
                  \<lparr>config_DEFAULT = Map.empty, disk = Map.empty\<rparr>) = Inl ValueError
   \<and> stage_data (regionprops demo_env) (extract_borders_dip demo_env)
     [\<lparr>Gene = ''g'', spot_x = 0, spot_y = 0\<rparr>] \<lparr>shape = (2, 2), row = [0, 1], col = [0, 1], data = [2, 5]\<rparr>
       = Inr ([(1, 1, 0, 0), (2, 1, 1, 1)], [(1, ()), (2, ())],
            [\<lparr>x_global = 0, y_global = 0, s_label = 1, target = ''g'',
              s_x_cell = Some 0, s_y_cell = Some 0\<rparr>])
   \<and> cell_type demo_env [(1, 1, 0, 0), (2, 1, 1, 1)]
        [\<lparr>x_global = 0, y_global = 0, s_label = 1, target = ''g'',
          s_x_cell = Some 0, s_y_cell = Some 0\<rparr>] () Map.empty = Inl (Raised ''SchemaError'')
   \<and> disk (snd (fit demo_env [\<lparr>Gene = ''g'', spot_x = 0, spot_y = 0\<rparr>] \<lparr>shape = (2, 2), row = [0, 1], col = [0, 1], data = [2, 5]\<rparr> () None
                  \<lparr>config_DEFAULT = Map.empty, disk = Map.empty\<rparr>)) = Map.empty
   \<and> fst (fit demo_env [\<lparr>Gene = ''g'', spot_x = 0, spot_y = 0\<rparr>] \<lparr>shape = (2, 2), row = [0, 1], col = [0, 1], data = [2, 5]\<rparr> () None
                  \<lparr>config_DEFAULT = Map.empty, disk = Map.empty\<rparr>) = Inl (Raised ''SchemaError'')
   \<and> disk (snd (fit demo_env_ok [\<lparr>Gene = ''g'', spot_x = 0, spot_y = 0\<rparr>] \<lparr>shape = (2, 2), row = [0, 1], col = [0, 1], data = [2, 5]\<rparr> () None
                  \<lparr>config_DEFAULT = Map.empty, disk = Map.empty\<rparr>)) ''/tmp/pciSeq/cellData.tsv'' = Some (File '''')
   \<and> disk (snd (fit demo_env_ok [\<lparr>Gene = ''g'', spot_x = 0, spot_y = 0\<rparr>] \<lparr>shape = (2, 2), row = [0, 1], col = [0, 1], data = [2, 5]\<rparr> () None
                  \<lparr>config_DEFAULT = Map.empty, disk = Map.empty\<rparr>))
       \<noteq> disk \<lparr>config_DEFAULT = Map.empty, disk = Map.empty\<rparr>
   \<and> (\<exists>cfg cells bnds spots cellData geneData.
           fst (init None (config_DEFAULT \<lparr>config_DEFAULT = Map.empty, disk = Map.empty\<rparr>)) = Inr cfg
         \<and> stage_data (regionprops demo_env_ok) (extract_borders_dip demo_env_ok)
               [\<lparr>Gene = ''g'', spot_x = 0, spot_y = 0\<rparr>] \<lparr>shape = (2, 2), row = [0, 1], col = [0, 1], data = [2, 5]\<rparr>
             = Inr (cells, bnds, spots)
         \<and> cell_type demo_env_ok cells spots () cfg = Inr (cellData, geneData)
         \<and> disk (snd (fit demo_env_ok [\<lparr>Gene = ''g'', spot_x = 0, spot_y = 0\<rparr>] \<lparr>shape = (2, 2), row = [0, 1], col = [0, 1], data = [2, 5]\<rparr> () None
                        \<lparr>config_DEFAULT = Map.empty, disk = Map.empty\<rparr>))
             = snd (write_to_disk demo_env_ok cellData geneData bnds
                      (disk \<lparr>config_DEFAULT = Map.empty, disk = Map.empty\<rparr>)))"
proof -
  let ?w = "\<lparr>config_DEFAULT = Map.empty, disk = Map.empty\<rparr>"
  let ?s = "[\<lparr>Gene = ''g'', spot_x = 0, spot_y = 0\<rparr>]"
  have cfg: "fst (init None (config_DEFAULT ?w)) = Inr Map.empty"
    by (simp add: init_def)
  have sd1: "stage_data (regionprops demo_env) (extract_borders_dip demo_env) ?s
     \<lparr>shape = (1, 1), row = [], col = [], data = []\<rparr> = Inl ValueError"
    by code_simp
  have sd2: "stage_data (regionprops demo_env) (extract_borders_dip demo_env) ?s
     \<lparr>shape = (2, 2), row = [0, 1], col = [0, 1], data = [2, 5]\<rparr>
       = Inr ([(1, 1, 0, 0), (2, 1, 1, 1)], [(1, ()), (2, ())],
            [\<lparr>x_global = 0, y_global = 0, s_label = 1, target = ''g'',
              s_x_cell = Some 0, s_y_cell = Some 0\<rparr>])"
    by code_simp
  have ct: "cell_type demo_env [(1, 1, 0, 0), (2, 1, 1, 1)]
        [\<lparr>x_global = 0, y_global = 0, s_label = 1, target = ''g'',
          s_x_cell = Some 0, s_y_cell = Some 0\<rparr>] () Map.empty = Inl (Raised ''SchemaError'')"
    by (simp add: cell_type_def demo_env_def)
  from fit_no_output_on_error [of demo_env ?s _ "()" None ?w, THEN conjunct1, rule_format, OF sd1]
  have r1: "disk (snd (fit demo_env ?s \<lparr>shape = (1, 1), row = [], col = [], data = []\<rparr> () None ?w))
        = Map.empty"
    and r2: "fst (fit demo_env ?s \<lparr>shape = (1, 1), row = [], col = [], data = []\<rparr> () None ?w)
        = Inl ValueError"
    unfolding cfg by simp_all
  from fit_no_output_on_error [of demo_env ?s _ "()" None ?w, THEN conjunct2, THEN conjunct1,
      rule_format, OF cfg sd2 ct]
  have r3: "disk (snd (fit demo_env ?s \<lparr>shape = (2, 2), row = [0, 1], col = [0, 1], data = [2, 5]\<rparr> ()
                  None ?w)) = Map.empty"
    and r4: "fst (fit demo_env ?s \<lparr>shape = (2, 2), row = [0, 1], col = [0, 1], data = [2, 5]\<rparr> ()
                  None ?w) = Inl (Raised ''SchemaError'')"
    by simp_all
  have written: "disk (snd (fit demo_env_ok ?s \<lparr>shape = (2, 2), row = [0, 1], col = [0, 1], data = [2, 5]\<rparr> () None ?w))
        ''/tmp/pciSeq/cellData.tsv'' = Some (File '''')"
    by code_simp
  have changed: "disk (snd (fit demo_env_ok ?s \<lparr>shape = (2, 2), row = [0, 1], col = [0, 1], data = [2, 5]\<rparr> () None ?w))
        \<noteq> disk ?w"
  proof
    assume "disk (snd (fit demo_env_ok ?s \<lparr>shape = (2, 2), row = [0, 1], col = [0, 1], data = [2, 5]\<rparr> () None ?w))
        = disk ?w"
    with written show False by simp
  qed
  have r5: "(\<exists>cfg cells bnds spots cellData geneData.
           fst (init None (config_DEFAULT \<lparr>config_DEFAULT = Map.empty, disk = Map.empty\<rparr>)) = Inr cfg
         \<and> stage_data (regionprops demo_env_ok) (extract_borders_dip demo_env_ok)
               [\<lparr>Gene = ''g'', spot_x = 0, spot_y = 0\<rparr>] \<lparr>shape = (2, 2), row = [0, 1], col = [0, 1], data = [2, 5]\<rparr>
             = Inr (cells, bnds, spots)
         \<and> cell_type demo_env_ok cells spots () cfg = Inr (cellData, geneData)
         \<and> disk (snd (fit demo_env_ok [\<lparr>Gene = ''g'', spot_x = 0, spot_y = 0\<rparr>] \<lparr>shape = (2, 2), row = [0, 1], col = [0, 1], data = [2, 5]\<rparr> () None
                        \<lparr>config_DEFAULT = Map.empty, disk = Map.empty\<rparr>))
             = snd (write_to_disk demo_env_ok cellData geneData bnds
                      (disk \<lparr>config_DEFAULT = Map.empty, disk = Map.empty\<rparr>)))"
    by (rule fit_no_output_on_error [THEN conjunct2, THEN conjunct2, rule_format, OF changed])
  show ?thesis
    by (rule conjI sd1 r1 r2 sd2 ct r3 r4 written changed r5)+
qed

section \<open>Properties of the inference engine\<close>

lemma sum_list_divide:
  "sum_list (map (\<lambda>w. w / c) ws) = sum_list ws / (c :: real)"
  by (induction ws) (simp_all add: add_divide_distrib)

lemma normalise_ok:
  assumes nonneg: "list_all (\<lambda>w. 0 \<le> w) ws" and pos: "0 < sum_list ws"
  shows "posterior_ok (normalise ws)"
proof -
  have "sum_list (normalise ws) = sum_list ws / sum_list ws"
    unfolding normalise_def by (rule sum_list_divide)
  with pos have one: "sum_list (normalise ws) = 1"
    by simp
  from nonneg pos have "list_all (\<lambda>v. 0 \<le> v) (normalise ws)"
    unfolding normalise_def by (simp add: list_all_iff)
  with one show ?thesis
    by (simp add: posterior_ok_def)
qed

lemma sum_list_exp_pos:
  "0 < sum_list (map (\<lambda>x. exp (f x :: real)) xs)" if "xs \<noteq> []"
proof (cases xs)
  case Nil
  with that show ?thesis by simp
next
  case (Cons x xs')
  have "0 \<le> sum_list (map (\<lambda>x. exp (f x)) xs')"
    by (rule sum_list_nonneg) auto
  moreover have "0 < exp (f x)"
    by simp
  ultimately have "0 < exp (f x) + sum_list (map (\<lambda>x. exp (f x)) xs')"
    by (rule add_pos_nonneg [rotated])
  with Cons show ?thesis by simp
qed

lemma nextSpotPosteriors_ok:
  "list_all posterior_ok (nextSpotPosteriors M H I cells eff)"
proof -
  let ?w = "Rep_probability (misread_prior H)"
  from Rep_probability [of "misread_prior H"] have w: "0 \<le> ?w"
    by simp
  have one: "posterior_ok [1]"
    by (simp add: posterior_ok_def)
  have step: "posterior_ok (normalise (map (\<lambda>j. exp (f j)) js @ [?w]))"
    if "js \<noteq> []" for f :: "nat \<Rightarrow> real" and js
  proof (rule normalise_ok)
    from w show "list_all (\<lambda>w. 0 \<le> w) (map (\<lambda>j. exp (f j)) js @ [?w])"
      by (simp add: list_all_iff)
    from that have "0 < sum_list (map (\<lambda>j. exp (f j)) js)"
      by (rule sum_list_exp_pos)
    with w show "0 < sum_list (map (\<lambda>j. exp (f j)) js @ [?w])"
      by simp
  qed
  show ?thesis
    unfolding nextSpotPosteriors_def list_all_iff by (auto simp: one intro!: step)
qed

lemma nextCellPosteriors_ok:
  "list_all posterior_ok (nextCellPosteriors M I spots eff)"
proof -
  have "posterior_ok (normalise (map (\<lambda>k. exp (f k)) [0..<Suc n]))" for f :: "nat \<Rightarrow> real" and n
  proof (rule normalise_ok)
    show "list_all (\<lambda>w. 0 \<le> w) (map (\<lambda>k. exp (f k)) [0..<Suc n])"
      by (simp add: list_all_iff)
    have "[0..<Suc n] \<noteq> []" by simp
    then show "0 < sum_list (map (\<lambda>k. exp (f k)) [0..<Suc n])"
      by (rule sum_list_exp_pos)
  qed
  then show ?thesis
    unfolding nextCellPosteriors_def by (simp add: list_all_iff)
qed

lemma iteration_ok: "state_ok (iteration M H I s)"
  using nextSpotPosteriors_ok nextCellPosteriors_ok
  by (simp add: state_ok_def iteration_def Let_def)

lemma iteration_spot_without_candidate:
  "spot_post (iteration M H \<lparr>n_cells = 1, n_ref_classes = 1, n_genes = 1, candidates = [[]]\<rparr> s)
     = [[1]]"
  by (simp add: iteration_def nextSpotPosteriors_def Let_def)

text \<open>
  C5. After every completed iteration (one or more, from any state), every cell's
  class-posterior vector and every spot's candidate-posterior vector, the background entry
  included, has no negative entry and sums to 1 within \<open>1e-6\<close>; over the real numbers the
  sum is exactly 1. This holds for every background prior probability, zero included, and
  for spots with no candidate cell.
\<close>

theorem iteration_keeps_posteriors_normalised:
  "state_ok ((iteration M H I ^^ Suc k) s)"
  using iteration_ok [of M H I "(iteration M H I ^^ k) s"] by simp

end
